theory Spec2Isabelle
  imports Main
begin

section \<open>Strings\<close>

text \<open>
  The component in \<^verbatim>\<open>src/components/FileConverter.tsx\<close> works on JavaScript strings.
  A string is modelled as a \<^typ>\<open>string\<close>; a \<^typ>\<open>char\<close> with code \<open>c\<close> stands for the
  UTF-16 code unit \<open>U+00c\<close>, so the model covers the texts whose code units are below 256.
\<close>

text \<open>
  \<^verbatim>\<open>String.prototype.trim\<close> removes white space and line terminators from both ends.
  Below 256 these are TAB, LF, VT, FF, CR, SPACE and NO-BREAK SPACE.
\<close>

definition isWhiteSpace :: "char \<Rightarrow> bool" where
  "isWhiteSpace c = (of_char c \<in> {9, 10, 11, 12, 13, 32, 160 :: nat})"

definition trim :: "string \<Rightarrow> string" where
  "trim s = rev (dropWhile isWhiteSpace (rev (dropWhile isWhiteSpace s)))"

text \<open>
  \<^verbatim>\<open>s.split(sep)\<close> for a separator of one character. The result is never empty:
  \<^verbatim>\<open>"".split(",")\<close> is \<^verbatim>\<open>[""]\<close>.
\<close>

fun split :: "char \<Rightarrow> string \<Rightarrow> string list" where
  "split sep [] = [[]]"
| "split sep (c # cs) =
     (if c = sep then [] # split sep cs
      else (case split sep cs of
              [] \<Rightarrow> [[c]]
            | w # ws \<Rightarrow> (c # w) # ws))"

text \<open>\<^verbatim>\<open>xs.join(sep)\<close> on an array of strings.\<close>

fun join :: "string \<Rightarrow> string list \<Rightarrow> string" where
  "join sep [] = []"
| "join sep [x] = x"
| "join sep (x # y # ys) = x @ sep @ join sep (y # ys)"

text \<open>\<^verbatim>\<open>s.replace(/"/g, "")\<close>: every double quote is deleted.\<close>

definition doubleQuote :: char where
  "doubleQuote = CHR 0x22"

definition removeQuotes :: "string \<Rightarrow> string" where
  "removeQuotes s = filter (\<lambda>c. c \<noteq> doubleQuote) s"

text \<open>
  The decimal rendering of a non-negative integer, as a template literal prints the
  loop counter and the lengths of arrays.
\<close>

definition digitChar :: "nat \<Rightarrow> char" where
  "digitChar d = char_of (48 + d)"

fun numberToString :: "nat \<Rightarrow> string" where
  "numberToString n =
     (if n < 10 then [digitChar n]
      else numberToString (n div 10) @ [digitChar (n mod 10)])"

declare numberToString.simps [simp del]

section \<open>Values\<close>

text \<open>
  The values of type \<^verbatim>\<open>any\<close> that flow between the parsers and the serialisers.
  A Number is represented by its canonical rendering, the text \<^verbatim>\<open>String(n)\<close> returns:
  the program performs no arithmetic on the numbers of the data, it only tests them for
  truthiness and prints them. An object is the list of its own enumerable properties
  in the order \<^verbatim>\<open>Object.keys\<close> reports them.
\<close>

datatype jsval =
    JUndefined
  | JNull
  | JBool bool
  | JNum string
  | JStr string
  | JArr "jsval list"
  | JObj "(string \<times> jsval) list"

type_synonym props = "(string \<times> jsval) list"

text \<open>
  Exceptions: an \<^verbatim>\<open>Error\<close> the program creates with a message, or a \<^verbatim>\<open>TypeError\<close>
  the runtime raises (its message text is the engine's).
\<close>

datatype exn = Error string | TypeError

text \<open>
  The result of running a piece of the program: it returns, it throws, or
  (\<open>Unmodelled\<close>) the run leaves the fragment of JavaScript this theory describes: it
  reads a property that only a prototype can answer, or it replaces a prototype.
\<close>

datatype 'a outcome = Returns 'a | Throws exn | Unmodelled

fun mapOutcome :: "('a \<Rightarrow> 'b outcome) \<Rightarrow> 'a list \<Rightarrow> 'b list outcome" where
  "mapOutcome f [] = Returns []"
| "mapOutcome f (x # xs) =
     (case f x of
        Returns y \<Rightarrow>
          (case mapOutcome f xs of
             Returns ys \<Rightarrow> Returns (y # ys)
           | Throws e \<Rightarrow> Throws e
           | Unmodelled \<Rightarrow> Unmodelled)
      | Throws e \<Rightarrow> Throws e
      | Unmodelled \<Rightarrow> Unmodelled)"

text \<open>Truthiness, as \<^verbatim>\<open>if (v)\<close> and \<^verbatim>\<open>v || ""\<close> test it.\<close>

fun truthy :: "jsval \<Rightarrow> bool" where
  "truthy JUndefined = False"
| "truthy JNull = False"
| "truthy (JBool b) = b"
| "truthy (JNum s) = (s \<noteq> ''0'' \<and> s \<noteq> ''NaN'')"
| "truthy (JStr s) = (s \<noteq> [])"
| "truthy (JArr xs) = True"
| "truthy (JObj ps) = True"

text \<open>\<^verbatim>\<open>Array.isArray(v)\<close>, and the elements of an array.\<close>

fun isArray :: "jsval \<Rightarrow> bool" where
  "isArray (JArr xs) = True"
| "isArray v = False"

fun arrayItems :: "jsval \<Rightarrow> jsval list" where
  "arrayItems (JArr xs) = xs"
| "arrayItems v = []"

text \<open>
  The members a plain object inherits from \<^verbatim>\<open>Object.prototype\<close>. Reading one of these
  names from an object that has no own property of that name yields a built-in function
  or the prototype itself, which \<^typ>\<open>jsval\<close> does not represent.
\<close>

definition objectPrototypeMembers :: "string list" where
  "objectPrototypeMembers =
     [''__defineGetter__'', ''__defineSetter__'', ''__lookupGetter__'', ''__lookupSetter__'',
      ''__proto__'', ''constructor'', ''hasOwnProperty'', ''isPrototypeOf'',
      ''propertyIsEnumerable'', ''toLocaleString'', ''toString'', ''valueOf'']"

text \<open>
  An array index is the canonical decimal text of an integer below \<open>2^32 - 1\<close>. Own
  properties named by array indices come first among the keys of an object, in
  ascending order; the other keys follow in the order of their creation.
\<close>

definition isDigit :: "char \<Rightarrow> bool" where
  "isDigit c = (48 \<le> (of_char c :: nat) \<and> (of_char c :: nat) \<le> 57)"

definition digitsValue :: "string \<Rightarrow> int" where
  "digitsValue s = foldl (\<lambda>n c. 10 * n + (of_char c - 48)) 0 s"

definition isArrayIndex :: "string \<Rightarrow> bool" where
  "isArrayIndex k =
     (k \<noteq> [] \<and> list_all isDigit k \<and> (hd k \<noteq> CHR ''0'' \<or> k = ''0'')
      \<and> digitsValue k < 4294967295)"

fun updateOwn :: "props \<Rightarrow> string \<Rightarrow> jsval \<Rightarrow> props" where
  "updateOwn [] k v = []"
| "updateOwn ((k', v') # ps) k v =
     (if k' = k then (k, v) # ps else (k', v') # updateOwn ps k v)"

fun insertIndexKey :: "props \<Rightarrow> string \<Rightarrow> jsval \<Rightarrow> props" where
  "insertIndexKey [] k v = [(k, v)]"
| "insertIndexKey ((k', v') # ps) k v =
     (if isArrayIndex k' \<and> digitsValue k' < digitsValue k
      then (k', v') # insertIndexKey ps k v
      else (k, v) # (k', v') # ps)"

text \<open>Creating or overwriting an own data property.\<close>

definition putOwn :: "props \<Rightarrow> string \<Rightarrow> jsval \<Rightarrow> props" where
  "putOwn ps k v =
     (if map_of ps k \<noteq> None then updateOwn ps k v
      else if isArrayIndex k then insertIndexKey ps k v
      else ps @ [(k, v)])"

text \<open>
  The assignment \<^verbatim>\<open>obj[k] = v\<close> on a plain object. An own property is overwritten.
  Otherwise the name \<^verbatim>\<open>__proto__\<close> reaches the setter of \<^verbatim>\<open>Object.prototype\<close>: it
  ignores a primitive value, and for an object, an array or \<^verbatim>\<open>null\<close> it replaces the
  prototype, which is outside the model. Every other name creates an own property.
\<close>

definition assignProp :: "props \<Rightarrow> string \<Rightarrow> jsval \<Rightarrow> props outcome" where
  "assignProp ps k v =
     (if map_of ps k \<noteq> None then Returns (putOwn ps k v)
      else if k = ''__proto__'' then
        (case v of
           JObj _ \<Rightarrow> Unmodelled
         | JArr _ \<Rightarrow> Unmodelled
         | JNull \<Rightarrow> Unmodelled
         | _ \<Rightarrow> Returns ps)
      else Returns (putOwn ps k v))"

text \<open>
  The read \<^verbatim>\<open>v[k]\<close>. On \<^verbatim>\<open>null\<close> and \<^verbatim>\<open>undefined\<close> the runtime raises a TypeError.
  On a plain object an own property wins; a name of \<^const>\<open>objectPrototypeMembers\<close> is
  inherited (outside the model); any other name is \<^verbatim>\<open>undefined\<close>. Arrays and strings
  answer their indices; their other properties and those of numbers and booleans come
  from further prototypes.
\<close>

fun getProp :: "jsval \<Rightarrow> string \<Rightarrow> jsval outcome" where
  "getProp JUndefined k = Throws TypeError"
| "getProp JNull k = Throws TypeError"
| "getProp (JObj ps) k =
     (case map_of ps k of
        Some v \<Rightarrow> Returns v
      | None \<Rightarrow> if k \<in> set objectPrototypeMembers then Unmodelled else Returns JUndefined)"
| "getProp (JArr xs) k =
     (if isArrayIndex k
      then (if digitsValue k < int (length xs) then Returns (xs ! nat (digitsValue k))
            else Returns JUndefined)
      else Unmodelled)"
| "getProp (JStr s) k =
     (if isArrayIndex k
      then (if digitsValue k < int (length s) then Returns (JStr [s ! nat (digitsValue k)])
            else Returns JUndefined)
      else Unmodelled)"
| "getProp (JBool b) k = Unmodelled"
| "getProp (JNum n) k = Unmodelled"

text \<open>\<^verbatim>\<open>Object.keys(v)\<close>.\<close>

fun objectKeys :: "jsval \<Rightarrow> string list outcome" where
  "objectKeys JUndefined = Throws TypeError"
| "objectKeys JNull = Throws TypeError"
| "objectKeys (JObj ps) = Returns (map fst ps)"
| "objectKeys (JArr xs) = Returns (map numberToString [0 ..< length xs])"
| "objectKeys (JStr s) = Returns (map numberToString [0 ..< length s])"
| "objectKeys (JBool b) = Returns []"
| "objectKeys (JNum n) = Returns []"

text \<open>
  The conversion to a string that a template literal and \<^verbatim>\<open>String(v)\<close> perform.
  An array joins the conversions of its elements with commas, \<^verbatim>\<open>null\<close> and
  \<^verbatim>\<open>undefined\<close> elements counting as empty. A plain object prints as
  \<^verbatim>\<open>[object Object]\<close>, unless it has an own property \<^verbatim>\<open>toString\<close>: that value is data
  and cannot be called, the inherited \<^verbatim>\<open>valueOf\<close> (or an own one, data again) gives no
  primitive, and the runtime raises a TypeError.
\<close>

fun toStringJS :: "jsval \<Rightarrow> string outcome"
  and elementStrings :: "jsval list \<Rightarrow> string list outcome" where
  "toStringJS JUndefined = Returns ''undefined''"
| "toStringJS JNull = Returns ''null''"
| "toStringJS (JBool b) = Returns (if b then ''true'' else ''false'')"
| "toStringJS (JNum s) = Returns s"
| "toStringJS (JStr s) = Returns s"
| "toStringJS (JArr xs) =
     (case elementStrings xs of
        Returns ss \<Rightarrow> Returns (join '','' ss)
      | Throws e \<Rightarrow> Throws e
      | Unmodelled \<Rightarrow> Unmodelled)"
| "toStringJS (JObj ps) =
     (if map_of ps ''toString'' \<noteq> None then Throws TypeError
      else Returns ''[object Object]'')"
| "elementStrings [] = Returns []"
| "elementStrings (x # xs) =
     (case (case x of
              JUndefined \<Rightarrow> Returns []
            | JNull \<Rightarrow> Returns []
            | _ \<Rightarrow> toStringJS x) of
        Returns s \<Rightarrow>
          (case elementStrings xs of
             Returns ss \<Rightarrow> Returns (s # ss)
           | Throws e \<Rightarrow> Throws e
           | Unmodelled \<Rightarrow> Unmodelled)
      | Throws e \<Rightarrow> Throws e
      | Unmodelled \<Rightarrow> Unmodelled)"

section \<open>Parsing CSV\<close>

text \<open>
  \<^verbatim>\<open>
  const parseCSV = (csvData: string): any[] => {
    const lines = csvData.trim().split("\n");
    if (lines.length === 0) throw new Error("CSV data is empty");
    const headers = lines[0].split(",").map(h => h.trim().replace(/"/g, ""));
    const result = [];
    for (let i = 1; i < lines.length; i++) {
      const values = lines[i].split(",").map(v => v.trim().replace(/"/g, ""));
      if (values.length !== headers.length) {
        throw new Error(`Row ${i + 1} has ${values.length} columns, expected ${headers.length}`);
      }
      const row: any = {};
      headers.forEach((header, index) => { row[header] = values[index]; });
      result.push(row);
    }
    return result;
  };
  \<close>
\<close>

definition cleanFields :: "string \<Rightarrow> string list" where
  "cleanFields line = map (\<lambda>v. removeQuotes (trim v)) (split CHR '','' line)"

definition rowLengthMessage :: "nat \<Rightarrow> nat \<Rightarrow> nat \<Rightarrow> string" where
  "rowLengthMessage row actual expected =
     ''Row '' @ numberToString row @ '' has '' @ numberToString actual
       @ '' columns, expected '' @ numberToString expected"

text \<open>
  The \<^verbatim>\<open>forEach\<close> over the headers; it runs only when the two arrays have the same
  length, so \<^verbatim>\<open>values[index]\<close> is always in range and the loop is one over the pairs.
\<close>

fun fillRow :: "props \<Rightarrow> (string \<times> string) list \<Rightarrow> props outcome" where
  "fillRow row [] = Returns row"
| "fillRow row ((header, v) # rest) =
     (case assignProp row header (JStr v) of
        Returns row' \<Rightarrow> fillRow row' rest
      | Throws e \<Rightarrow> Throws e
      | Unmodelled \<Rightarrow> Unmodelled)"

text \<open>The \<^verbatim>\<open>for\<close> loop; \<open>i\<close> is the index of the line at the head of the list.\<close>

fun parseRows :: "string list \<Rightarrow> nat \<Rightarrow> string list \<Rightarrow> jsval list \<Rightarrow> jsval outcome" where
  "parseRows headers i [] result = Returns (JArr result)"
| "parseRows headers i (line # rest) result =
     (let values = cleanFields line in
      if length values \<noteq> length headers
      then Throws (Error (rowLengthMessage (i + 1) (length values) (length headers)))
      else (case fillRow [] (zip headers values) of
              Returns row \<Rightarrow> parseRows headers (i + 1) rest (result @ [JObj row])
            | Throws e \<Rightarrow> Throws e
            | Unmodelled \<Rightarrow> Unmodelled))"

definition csvLines :: "string \<Rightarrow> string list" where
  "csvLines csvData = split CHR 0x0A (trim csvData)"

definition parseCSV :: "string \<Rightarrow> jsval outcome" where
  "parseCSV csvData =
     (case csvLines csvData of
        [] \<Rightarrow> Throws (Error ''CSV data is empty'')
      | header # rest \<Rightarrow> parseRows (cleanFields header) 1 rest [])"

section \<open>Parsing XML\<close>

text \<open>
  The DOM tree \<^verbatim>\<open>DOMParser\<close> hands to the program. \<open>Text\<close> stands for the character
  data nodes (text and CDATA sections), \<open>Comment\<close> for the nodes that \<^verbatim>\<open>textContent\<close>
  skips (comments and processing instructions).
\<close>

datatype node =
    Element string "(string \<times> string) list" "node list"
  | Text string
  | Comment string

fun isElement :: "node \<Rightarrow> bool" where
  "isElement (Element tagName attributes childNodes) = True"
| "isElement (Text s) = False"
| "isElement (Comment s) = False"

text \<open>\<^verbatim>\<open>element.children\<close>: the child nodes that are elements.\<close>

definition children :: "node list \<Rightarrow> node list" where
  "children childNodes = filter isElement childNodes"

text \<open>\<^verbatim>\<open>node.textContent\<close>.\<close>

fun textContent :: "node \<Rightarrow> string"
  and textOfChildNodes :: "node list \<Rightarrow> string" where
  "textContent (Element tagName attributes childNodes) = textOfChildNodes childNodes"
| "textContent (Text s) = s"
| "textContent (Comment s) = s"
| "textOfChildNodes [] = []"
| "textOfChildNodes (Comment s # ns) = textOfChildNodes ns"
| "textOfChildNodes (n # ns) = textContent n @ textOfChildNodes ns"

text \<open>
  \<^verbatim>\<open>
  const xmlToObject = (element: Element): any => {
    const result: any = {};
    if (element.children.length === 0) {
      return element.textContent;
    }
    for (let i = 0; i < element.children.length; i++) {
      const child = element.children[i];
      const childData = xmlToObject(child);
      if (result[child.tagName]) {
        if (Array.isArray(result[child.tagName])) {
          result[child.tagName].push(childData);
        } else {
          result[child.tagName] = [result[child.tagName], childData];
        }
      } else {
        result[child.tagName] = childData;
      }
    }
    return result;
  };
  \<close>
  \<open>xmlChildLoop result cs\<close> is the \<^verbatim>\<open>for\<close> loop with the object built so far and the
  children still to visit. A node that is not an element has no \<^verbatim>\<open>children\<close>, and
  reading their length raises a TypeError.
\<close>

function xmlToObject :: "node \<Rightarrow> jsval outcome"
  and xmlChildLoop :: "props \<Rightarrow> node list \<Rightarrow> jsval outcome" where
  "xmlToObject (Element tagName attributes childNodes) =
     (if length (children childNodes) = 0
      then Returns (JStr (textContent (Element tagName attributes childNodes)))
      else xmlChildLoop [] (children childNodes))"
| "xmlToObject (Text s) = Throws TypeError"
| "xmlToObject (Comment s) = Throws TypeError"
| "xmlChildLoop result [] = Returns (JObj result)"
| "xmlChildLoop result (Text s # rest) = Throws TypeError"
| "xmlChildLoop result (Comment s # rest) = Throws TypeError"
| "xmlChildLoop result (Element tagName attributes childNodes # rest) =
     (case xmlToObject (Element tagName attributes childNodes) of
        Returns childData \<Rightarrow>
          (case getProp (JObj result) tagName of
             Returns existing \<Rightarrow>
               (if truthy existing then
                  (case existing of
                     JArr items \<Rightarrow>
                       xmlChildLoop (putOwn result tagName (JArr (items @ [childData]))) rest
                   | _ \<Rightarrow>
                       (case assignProp result tagName (JArr [existing, childData]) of
                          Returns result' \<Rightarrow> xmlChildLoop result' rest
                        | Throws e \<Rightarrow> Throws e
                        | Unmodelled \<Rightarrow> Unmodelled))
                else
                  (case assignProp result tagName childData of
                     Returns result' \<Rightarrow> xmlChildLoop result' rest
                   | Throws e \<Rightarrow> Throws e
                   | Unmodelled \<Rightarrow> Unmodelled))
           | Throws e \<Rightarrow> Throws e
           | Unmodelled \<Rightarrow> Unmodelled)
      | Throws e \<Rightarrow> Throws e
      | Unmodelled \<Rightarrow> Unmodelled)"
  by pat_completeness auto
termination
proof (relation "measure (\<lambda>x. case x of Inl n \<Rightarrow> size n | Inr (r, ns) \<Rightarrow> size_list size ns)")
  show "wf (measure (\<lambda>x. case x of Inl n \<Rightarrow> size n | Inr (r, ns) \<Rightarrow> size_list size ns))"
    by simp
next
  fix tagName :: string and attributes :: "(string \<times> string) list" and childNodes :: "node list"
  have "size_list size (children ns) \<le> size_list size ns" for ns :: "node list"
    by (induction ns) (simp_all add: children_def)
  then have "size_list size (children childNodes) \<le> size_list size childNodes" .
  then show "(Inr ([], children childNodes), Inl (Element tagName attributes childNodes))
      \<in> measure (\<lambda>x. case x of Inl n \<Rightarrow> size n | Inr (r, ns) \<Rightarrow> size_list size ns)"
    by simp
qed simp_all

text \<open>\<^verbatim>\<open>xmlDoc.getElementsByTagName(name).length > 0\<close>, on the tree below the root.\<close>

fun hasElementNamed :: "string \<Rightarrow> node \<Rightarrow> bool"
  and anyElementNamed :: "string \<Rightarrow> node list \<Rightarrow> bool" where
  "hasElementNamed name (Element tagName attributes childNodes) =
     (tagName = name \<or> anyElementNamed name childNodes)"
| "hasElementNamed name (Text s) = False"
| "hasElementNamed name (Comment s) = False"
| "anyElementNamed name [] = False"
| "anyElementNamed name (n # ns) = (hasElementNamed name n \<or> anyElementNamed name ns)"

text \<open>
  \<^verbatim>\<open>
  const parseXML = (xmlData: string): any => {
    try {
      const parser = new DOMParser();
      const xmlDoc = parser.parseFromString(xmlData, "text/xml");
      if (xmlDoc.getElementsByTagName("parsererror").length > 0) {
        throw new Error("Invalid XML format");
      }
      return xmlToObject(xmlDoc.documentElement);
    } catch (e) {
      throw new Error("Failed to parse XML data");
    }
  };
  \<close>
  The browser's parser is a parameter: \<open>parseFromString\<close> gives the document element.
\<close>

definition parseXML :: "(string \<Rightarrow> node outcome) \<Rightarrow> string \<Rightarrow> jsval outcome" where
  "parseXML parseFromString xmlData =
     (case parseFromString xmlData of
        Returns documentElement \<Rightarrow>
          (if hasElementNamed ''parsererror'' documentElement
           then Throws (Error ''Failed to parse XML data'')
           else (case xmlToObject documentElement of
                   Returns v \<Rightarrow> Returns v
                 | Throws e \<Rightarrow> Throws (Error ''Failed to parse XML data'')
                 | Unmodelled \<Rightarrow> Unmodelled))
      | Throws e \<Rightarrow> Throws (Error ''Failed to parse XML data'')
      | Unmodelled \<Rightarrow> Unmodelled)"

section \<open>Serialising\<close>

text \<open>
  \<^verbatim>\<open>
  const convertToCSV = (data: any): string => {
    if (!Array.isArray(data)) {
      throw new Error("CSV output requires array data");
    }
    if (data.length === 0) return "";
    const headers = Object.keys(data[0]);
    const csvContent = [
      headers.join(","),
      ...data.map(row => headers.map(header => `"${row[header] || ""}"`).join(","))
    ].join("\n");
    return csvContent;
  };
  \<close>
\<close>

definition cell :: "jsval \<Rightarrow> string \<Rightarrow> string outcome" where
  "cell row header =
     (case getProp row header of
        Returns v \<Rightarrow>
          (case toStringJS (if truthy v then v else JStr []) of
             Returns s \<Rightarrow> Returns ([doubleQuote] @ s @ [doubleQuote])
           | Throws e \<Rightarrow> Throws e
           | Unmodelled \<Rightarrow> Unmodelled)
      | Throws e \<Rightarrow> Throws e
      | Unmodelled \<Rightarrow> Unmodelled)"

definition rowLine :: "string list \<Rightarrow> jsval \<Rightarrow> string outcome" where
  "rowLine headers row =
     (case mapOutcome (cell row) headers of
        Returns cells \<Rightarrow> Returns (join '','' cells)
      | Throws e \<Rightarrow> Throws e
      | Unmodelled \<Rightarrow> Unmodelled)"

definition convertToCSV :: "jsval \<Rightarrow> string outcome" where
  "convertToCSV data =
     (if \<not> isArray data then Throws (Error ''CSV output requires array data'')
      else
        (let xs = arrayItems data in
         if length xs = 0 then Returns []
         else (case objectKeys (xs ! 0) of
                 Returns headers \<Rightarrow>
                   (case mapOutcome (rowLine headers) xs of
                      Returns rows \<Rightarrow> Returns (join [CHR 0x0A] (join '','' headers # rows))
                    | Throws e \<Rightarrow> Throws e
                    | Unmodelled \<Rightarrow> Unmodelled)
               | Throws e \<Rightarrow> Throws e
               | Unmodelled \<Rightarrow> Unmodelled)))"

text \<open>
  \<^verbatim>\<open>
  const convertToXML = (data: any): string => {
    const objectToXml = (obj: any, rootName: string = "root"): string => {
      if (Array.isArray(obj)) {
        return obj.map(item => `<item>${objectToXml(item, "")}</item>`).join("\n");
      }
      if (typeof obj === "object" && obj !== null) {
        return Object.entries(obj)
          .map(([key, value]) => `<${key}>${objectToXml(value, "")}</${key}>`)
          .join("\n");
      }
      return String(obj);
    };
    return `<?xml version="1.0" encoding="UTF-8"?>\n<root>\n${objectToXml(data)}\n</root>`;
  };
  \<close>
  The parameter \<^verbatim>\<open>rootName\<close> is never read.
\<close>

fun objectToXml :: "jsval \<Rightarrow> string" where
  "objectToXml (JArr xs) =
     join [CHR 0x0A] (map (\<lambda>item. ''<item>'' @ objectToXml item @ ''</item>'') xs)"
| "objectToXml (JObj ps) =
     join [CHR 0x0A]
       (map (\<lambda>entry. ''<'' @ fst entry @ ''>'' @ objectToXml (snd entry) @ ''</'' @ fst entry @ ''>'')
          ps)"
| "objectToXml JUndefined = ''undefined''"
| "objectToXml JNull = ''null''"
| "objectToXml (JBool b) = (if b then ''true'' else ''false'')"
| "objectToXml (JNum s) = s"
| "objectToXml (JStr s) = s"

definition xmlDeclaration :: string where
  \<open>xmlDeclaration = ''<?xml version="1.0" encoding="UTF-8"?>''\<close>

definition convertToXML :: "jsval \<Rightarrow> string" where
  "convertToXML data =
     xmlDeclaration @ [CHR 0x0A] @ ''<root>'' @ [CHR 0x0A] @ objectToXml data
       @ [CHR 0x0A] @ ''</root>''"

section \<open>The conversion handler\<close>

datatype FileFormat = json | csv | xml

datatype level = error_level | warning_level

record ConversionError =
  message :: string
  type :: level

record toast =
  title :: string
  description :: string

text \<open>
  The state of the component, and the toasts shown so far. \<^verbatim>\<open>JSON.parse\<close>,
  \<^verbatim>\<open>JSON.stringify\<close> and \<^verbatim>\<open>DOMParser\<close> belong to the browser, not to the program: they
  are parameters, with the text the engine gives to the TypeErrors it raises.
\<close>

record session =
  inputData :: string
  outputData :: string
  inputFormat :: FileFormat
  outputFormat :: FileFormat
  error :: "ConversionError option"
  isConverting :: bool
  toasts :: "toast list"

record platform =
  JSON_parse :: "string \<Rightarrow> jsval outcome"
  JSON_stringify :: "jsval \<Rightarrow> string outcome"
  parseFromString :: "string \<Rightarrow> node outcome"
  typeErrorMessage :: string

fun toUpperCase :: "FileFormat \<Rightarrow> string" where
  "toUpperCase json = ''JSON''"
| "toUpperCase csv = ''CSV''"
| "toUpperCase xml = ''XML''"

fun errorMessage :: "platform \<Rightarrow> exn \<Rightarrow> string" where
  "errorMessage P (Error m) = m"
| "errorMessage P TypeError = typeErrorMessage P"

text \<open>
  \<^verbatim>\<open>
  const validateAndConvert = useCallback(() => {
    if (!inputData.trim()) {
      setError({ message: "Please enter some data to convert", type: "warning" });
      return;
    }
    setIsConverting(true);
    setError(null);
    try {
      let parsedData: any;
      if (inputFormat === "json") {
        try { parsedData = JSON.parse(inputData); }
        catch (e) { throw new Error("Invalid JSON format. Please check your syntax."); }
      } else if (inputFormat === "csv") { parsedData = parseCSV(inputData); }
      else if (inputFormat === "xml") { parsedData = parseXML(inputData); }
      let convertedData: string;
      if (outputFormat === "json") { convertedData = JSON.stringify(parsedData, null, 2); }
      else if (outputFormat === "csv") { convertedData = convertToCSV(parsedData); }
      else if (outputFormat === "xml") { convertedData = convertToXML(parsedData); }
      else { throw new Error("Unsupported output format"); }
      setOutputData(convertedData);
      toast({ title: "Conversion successful!",
              description: `Successfully converted ${inputFormat.toUpperCase()} to ${outputFormat.toUpperCase()}` });
    } catch (e) {
      const errorMessage = e instanceof Error ? e.message : "Conversion failed";
      setError({ message: errorMessage, type: "error" });
      setOutputData("");
    } finally {
      setIsConverting(false);
    }
  }, [inputData, inputFormat, outputFormat, toast]);
  \<close>
  The two \<^verbatim>\<open>if\<close> chains of the \<^verbatim>\<open>try\<close> block are \<open>parseInput\<close> and \<open>serialise\<close>; the type
  \<^typ>\<open>FileFormat\<close> has three values, so their last branches are never taken. The
  handler itself catches every exception; its result is \<open>None\<close> when a step is
  \<^const>\<open>Unmodelled\<close>.
\<close>

definition parseInput :: "platform \<Rightarrow> FileFormat \<Rightarrow> string \<Rightarrow> jsval outcome" where
  "parseInput P fmt text =
     (case fmt of
        json \<Rightarrow>
          (case JSON_parse P text of
             Returns v \<Rightarrow> Returns v
           | Throws e \<Rightarrow> Throws (Error ''Invalid JSON format. Please check your syntax.'')
           | Unmodelled \<Rightarrow> Unmodelled)
      | csv \<Rightarrow> parseCSV text
      | xml \<Rightarrow> parseXML (parseFromString P) text)"

definition serialise :: "platform \<Rightarrow> FileFormat \<Rightarrow> jsval \<Rightarrow> string outcome" where
  "serialise P fmt parsedData =
     (case fmt of
        json \<Rightarrow> JSON_stringify P parsedData
      | csv \<Rightarrow> convertToCSV parsedData
      | xml \<Rightarrow> Returns (convertToXML parsedData))"

definition tryBlock :: "platform \<Rightarrow> session \<Rightarrow> string outcome" where
  "tryBlock P st =
     (case parseInput P (inputFormat st) (inputData st) of
        Returns parsedData \<Rightarrow> serialise P (outputFormat st) parsedData
      | Throws e \<Rightarrow> Throws e
      | Unmodelled \<Rightarrow> Unmodelled)"

definition validateAndConvert :: "platform \<Rightarrow> session \<Rightarrow> session option" where
  "validateAndConvert P st =
     (if trim (inputData st) = []
      then Some (st\<lparr>error := Some \<lparr>message = ''Please enter some data to convert'',
                                    type = warning_level\<rparr>\<rparr>)
      else
        (case tryBlock P st of
           Returns convertedData \<Rightarrow>
             Some (st\<lparr>isConverting := False, error := None, outputData := convertedData,
                      toasts := toasts st @
                        [\<lparr>title = ''Conversion successful!'',
                          description = ''Successfully converted '' @ toUpperCase (inputFormat st)
                            @ '' to '' @ toUpperCase (outputFormat st)\<rparr>]\<rparr>)
         | Throws e \<Rightarrow>
             Some (st\<lparr>isConverting := False,
                      error := Some \<lparr>message = errorMessage P e, type = error_level\<rparr>,
                      outputData := []\<rparr>)
         | Unmodelled \<Rightarrow> None))"

text \<open>
  A platform whose services all lie outside the model, and a session; they serve as
  concrete inputs where a result does not depend on the browser.
\<close>

definition opaquePlatform :: platform where
  "opaquePlatform =
     \<lparr>JSON_parse = (\<lambda>text. Unmodelled), JSON_stringify = (\<lambda>v. Unmodelled),
      parseFromString = (\<lambda>text. Unmodelled), typeErrorMessage = []\<rparr>"

definition sessionWith :: "string \<Rightarrow> FileFormat \<Rightarrow> FileFormat \<Rightarrow> session" where
  "sessionWith text fromFormat toFormat =
     \<lparr>inputData = text, outputData = ''previous output'', inputFormat = fromFormat,
      outputFormat = toFormat, error = None, isConverting = False, toasts = []\<rparr>"

section \<open>Notions used in the statements\<close>

text \<open>An element with a name and a content, as serialised text.\<close>

definition element :: "string \<Rightarrow> string \<Rightarrow> string" where
  "element name content = ''<'' @ name @ ''>'' @ content @ ''</'' @ name @ ''>''"

text \<open>A scalar is a value that is neither an array nor an object.\<close>

fun isScalar :: "jsval \<Rightarrow> bool" where
  "isScalar (JArr xs) = False"
| "isScalar (JObj ps) = False"
| "isScalar v = True"

text \<open>
  The header names of a CSV text: the first line, split on commas, each field trimmed
  and its quotes deleted. \<open>cellText csvData i j\<close> is the field of column \<open>j\<close> of line \<open>i\<close>,
  treated in the same way.
\<close>

definition headerNames :: "string \<Rightarrow> string list" where
  "headerNames csvData =
     map (\<lambda>h. removeQuotes (trim h)) (split CHR '','' (csvLines csvData ! 0))"

definition cellText :: "string \<Rightarrow> nat \<Rightarrow> nat \<Rightarrow> string" where
  "cellText csvData i j = removeQuotes (trim (split CHR '','' (csvLines csvData ! i) ! j))"

text \<open>
  The values whose conversion to a string does not raise: no object with an own property
  \<^verbatim>\<open>toString\<close>, also among the elements of an array.
\<close>

fun coercible :: "jsval \<Rightarrow> bool"
  and allCoercible :: "jsval list \<Rightarrow> bool" where
  "coercible (JArr xs) = allCoercible xs"
| "coercible (JObj ps) = (map_of ps ''toString'' = None)"
| "coercible JUndefined = True"
| "coercible JNull = True"
| "coercible (JBool b) = True"
| "coercible (JNum s) = True"
| "coercible (JStr s) = True"
| "allCoercible [] = True"
| "allCoercible (x # xs) = (coercible x \<and> allCoercible xs)"

text \<open>
  The text of a CSV cell: empty when the row has no such property or its value is falsy,
  the conversion of the value to a string otherwise.
\<close>

definition stringOf :: "jsval \<Rightarrow> string" where
  "stringOf v = (case toStringJS v of Returns s \<Rightarrow> s | Throws e \<Rightarrow> [] | Unmodelled \<Rightarrow> [])"

definition cellString :: "props \<Rightarrow> string \<Rightarrow> string" where
  "cellString row header =
     (case map_of row header of
        None \<Rightarrow> []
      | Some v \<Rightarrow> if truthy v then stringOf v else [])"

definition quoted :: "string \<Rightarrow> string" where
  "quoted s = [doubleQuote] @ s @ [doubleQuote]"

section \<open>Properties of the string primitives\<close>

lemma dropWhile_all_iff:
  "(\<forall>x\<in>set (dropWhile Q xs). Q x) \<longleftrightarrow> (\<forall>x\<in>set xs. Q x)"
  by (induction xs) auto

lemma trim_empty_iff: "trim s = [] \<longleftrightarrow> (\<forall>c\<in>set s. isWhiteSpace c)"
  by (simp add: trim_def dropWhile_eq_Nil_conv dropWhile_all_iff)

lemma split_not_empty: "split sep s \<noteq> []"
  by (induction s) (auto split: list.splits)

lemma length_cleanFields: "length (cleanFields line) = length (split CHR '','' line)"
  by (simp add: cleanFields_def)

section \<open>The conversion handler: blank input and failures\<close>

text \<open>
  Claim C8. For every session state whose input text is empty or consists of white space
  only, triggering a conversion changes nothing but the message: the output text is
  unchanged and the message is of warning level, not an error. The resulting state is
  the same for any two platforms: no parse or serialise step contributes to it.
\<close>

theorem blank_input_is_refused:
  assumes "\<forall>c\<in>set (inputData st). isWhiteSpace c"
  shows "validateAndConvert P st =
      Some (st\<lparr>error := Some \<lparr>message = ''Please enter some data to convert'',
                                 type = warning_level\<rparr>\<rparr>)
    \<and> validateAndConvert P' st = validateAndConvert P st"
  using assms by (simp add: validateAndConvert_def trim_empty_iff)

theorem blank_input_is_refused_witness:
  "isWhiteSpace CHR '' '' \<and>
   validateAndConvert opaquePlatform (sessionWith '' '' json csv) =
   Some \<lparr>inputData = '' '', outputData = ''previous output'', inputFormat = json,
      outputFormat = csv,
      error = Some \<lparr>message = ''Please enter some data to convert'', type = warning_level\<rparr>,
      isConverting = False, toasts = []\<rparr>"
proof -
  have blank: "\<forall>c\<in>set (inputData (sessionWith '' '' json csv)). isWhiteSpace c"
    by (simp add: isWhiteSpace_def sessionWith_def)
  show ?thesis
    using blank_input_is_refused [OF blank, of opaquePlatform opaquePlatform]
    by (simp add: isWhiteSpace_def sessionWith_def)
qed

text \<open>
  Claim C9. For every conversion attempt (the input is not blank) in which the parse or
  the serialise step throws, the handler stores one error-level message and sets the
  output text to the empty string; when no exception occurs, it stores the serialised
  text as the output and no error.
\<close>

theorem failure_clears_output:
  assumes "\<exists>c\<in>set (inputData st). \<not> isWhiteSpace c"
  shows "(parseInput P (inputFormat st) (inputData st) = Throws e \<or>
          (\<exists>v. parseInput P (inputFormat st) (inputData st) = Returns v \<and>
               serialise P (outputFormat st) v = Throws e)
          \<longrightarrow> (\<exists>st'. validateAndConvert P st = Some st' \<and> outputData st' = [] \<and>
                 error st' = Some \<lparr>message = errorMessage P e, type = error_level\<rparr> \<and>
                 isConverting st' = False))
       \<and> (parseInput P (inputFormat st) (inputData st) = Returns v \<and>
          serialise P (outputFormat st) v = Returns converted
          \<longrightarrow> (\<exists>st'. validateAndConvert P st = Some st' \<and> outputData st' = converted \<and>
                 error st' = None \<and> isConverting st' = False))"
proof -
  from assms have attempt: "trim (inputData st) \<noteq> []"
    by (simp add: trim_empty_iff)
  have thrown: "tryBlock P st = Throws e"
    if "parseInput P (inputFormat st) (inputData st) = Throws e \<or>
        (\<exists>v. parseInput P (inputFormat st) (inputData st) = Returns v \<and>
             serialise P (outputFormat st) v = Throws e)"
    using that by (auto simp: tryBlock_def)
  have returned: "tryBlock P st = Returns converted"
    if "parseInput P (inputFormat st) (inputData st) = Returns v \<and>
        serialise P (outputFormat st) v = Returns converted"
    using that by (simp add: tryBlock_def)
  show ?thesis
  proof (intro conjI impI)
    assume "parseInput P (inputFormat st) (inputData st) = Throws e \<or>
        (\<exists>v. parseInput P (inputFormat st) (inputData st) = Returns v \<and>
             serialise P (outputFormat st) v = Throws e)"
    then have "tryBlock P st = Throws e" by (rule thrown)
    with attempt show "\<exists>st'. validateAndConvert P st = Some st' \<and> outputData st' = [] \<and>
        error st' = Some \<lparr>message = errorMessage P e, type = error_level\<rparr> \<and>
        isConverting st' = False"
      by (simp add: validateAndConvert_def)
  next
    assume "parseInput P (inputFormat st) (inputData st) = Returns v \<and>
        serialise P (outputFormat st) v = Returns converted"
    then have "tryBlock P st = Returns converted" by (rule returned)
    with attempt show "\<exists>st'. validateAndConvert P st = Some st' \<and> outputData st' = converted \<and>
        error st' = None \<and> isConverting st' = False"
      by (simp add: validateAndConvert_def)
  qed
qed

theorem failure_clears_output_witness:
  "\<not> isWhiteSpace CHR ''a'' \<and>
   parseInput opaquePlatform csv ''a,b\<newline>1'' =
     Throws (Error ''Row 2 has 1 columns, expected 2'') \<and>
   (\<exists>st'. validateAndConvert opaquePlatform (sessionWith ''a,b\<newline>1'' csv xml) = Some st' \<and>
      outputData st' = [] \<and>
      error st' = Some \<lparr>message = ''Row 2 has 1 columns, expected 2'', type = error_level\<rparr> \<and>
      isConverting st' = False)"
proof -
  have attempt: "\<exists>c\<in>set (inputData (sessionWith ''a,b\<newline>1'' csv xml)). \<not> isWhiteSpace c"
    by (simp add: isWhiteSpace_def sessionWith_def)
  have fails: "parseInput opaquePlatform csv ''a,b\<newline>1'' =
      Throws (Error ''Row 2 has 1 columns, expected 2'')"
    unfolding parseInput_def by code_simp
  have ws: "\<not> isWhiteSpace CHR ''a''"
    by (simp add: isWhiteSpace_def)
  from failure_clears_output [OF attempt, of opaquePlatform
      "Error ''Row 2 has 1 columns, expected 2''"] fails
  have "\<exists>st'. validateAndConvert opaquePlatform (sessionWith ''a,b\<newline>1'' csv xml) = Some st' \<and>
      outputData st' = [] \<and>
      error st' = Some \<lparr>message = errorMessage opaquePlatform
          (Error ''Row 2 has 1 columns, expected 2''), type = error_level\<rparr> \<and>
      isConverting st' = False"
    by (simp add: sessionWith_def)
  with ws fails show ?thesis by simp
qed

section \<open>Serialising to CSV and XML\<close>

text \<open>
  Claim C5, amended. \<^verbatim>\<open>convertToCSV\<close> fails for every value that is not an array: it
  throws an \<^verbatim>\<open>Error\<close> whose message is \<^verbatim>\<open>CSV output requires array data\<close>. Applied to
  the empty array it returns the empty string.
\<close>

theorem convertToCSV_requires_array:
  "(\<not> isArray v \<longrightarrow> convertToCSV v = Throws (Error ''CSV output requires array data''))
   \<and> convertToCSV (JArr []) = Returns []"
  by (simp add: convertToCSV_def)

theorem convertToCSV_requires_array_witness:
  "\<not> isArray (JObj [(''a'', JStr ''1'')]) \<and>
   convertToCSV (JObj [(''a'', JStr ''1'')]) = Throws (Error ''CSV output requires array data'') \<and>
   convertToCSV (JArr []) = Returns []"
  using convertToCSV_requires_array [of "JObj [(''a'', JStr ''1'')]"] by simp

text \<open>
  Claim C5 as stated names the failure a TypeError. The exception thrown for a value
  that is not an array, \<^verbatim>\<open>null\<close> for one, is an \<^verbatim>\<open>Error\<close> the program creates; the
  TypeErrors of this function are those the runtime raises on an array, for
  \<^verbatim>\<open>[null]\<close> when it asks for the keys of \<^verbatim>\<open>null\<close>.
\<close>

theorem convertToCSV_error_class_counterexample:
  "convertToCSV JNull = Throws (Error ''CSV output requires array data'')
   \<and> convertToCSV JNull \<noteq> Throws TypeError
   \<and> convertToCSV (JArr [JNull]) = Throws TypeError"
  by (simp add: convertToCSV_def)

text \<open>
  Claim C7. For every value, \<^verbatim>\<open>convertToXML\<close> produces text that begins with the XML
  declaration, followed by a \<^verbatim>\<open>root\<close> element around the rendering of the value. An
  array is rendered as sibling \<^verbatim>\<open>item\<close> elements, one per element of the array; an object
  as sibling elements named after its keys; a scalar as the text its conversion to a
  string gives.
\<close>

theorem convertToXML_rendering:
  "convertToXML v =
     xmlDeclaration @ [CHR 0x0A] @ element ''root'' ([CHR 0x0A] @ objectToXml v @ [CHR 0x0A])
   \<and> objectToXml (JArr xs) =
       join [CHR 0x0A] (map (\<lambda>item. element ''item'' (objectToXml item)) xs)
   \<and> objectToXml (JObj ps) =
       join [CHR 0x0A] (map (\<lambda>(key, value). element key (objectToXml value)) ps)
   \<and> (isScalar v \<longrightarrow> toStringJS v = Returns (objectToXml v))"
proof (intro conjI impI)
  show "convertToXML v =
     xmlDeclaration @ [CHR 0x0A] @ element ''root'' ([CHR 0x0A] @ objectToXml v @ [CHR 0x0A])"
    by (simp add: convertToXML_def element_def)
  show "objectToXml (JArr xs) =
       join [CHR 0x0A] (map (\<lambda>item. element ''item'' (objectToXml item)) xs)"
    by (simp add: element_def)
  show "objectToXml (JObj ps) =
       join [CHR 0x0A] (map (\<lambda>(key, value). element key (objectToXml value)) ps)"
    by (simp add: element_def split_def)
  show "toStringJS v = Returns (objectToXml v)" if "isScalar v"
    using that by (cases v) simp_all
qed

theorem convertToXML_rendering_witness:
  \<open>isScalar (JNum ''3'') \<and> toStringJS (JNum ''3'') = Returns ''3'' \<and>
   convertToXML (JArr [JObj [(''a'', JStr ''1''), (''b'', JNull)], JNum ''3'']) =
     ''<?xml version="1.0" encoding="UTF-8"?>\<newline><root>\<newline><item><a>1</a>\<newline><b>null</b></item>\<newline><item>3</item>\<newline></root>''\<close>
  using convertToXML_rendering [of "JNum ''3''" "[]" "[]"]
    convertToXML_rendering [of "JArr [JObj [(''a'', JStr ''1''), (''b'', JNull)], JNum ''3'']"
      "[JObj [(''a'', JStr ''1''), (''b'', JNull)], JNum ''3'']" "[(''a'', JStr ''1''), (''b'', JNull)]"]
  by (simp add: element_def xmlDeclaration_def)

section \<open>Parsing XML: repeated tags\<close>

lemma xmlToObject_leaf:
  "children childNodes = [] \<Longrightarrow>
   xmlToObject (Element tagName attributes childNodes) = Returns (JStr (textOfChildNodes childNodes))"
  by simp

lemma xmlToObject_repeated_example:
  "xmlToObject (Element ''root'' [] [Element ''a'' [] [Text ''1''], Element ''a'' [] [Text ''2'']])
     = Returns (JObj [(''a'', JArr [JStr ''1'', JStr ''2''])])"
  by code_simp

text \<open>
  Claim C2. A container element should map to an object in which a repeated tag name
  collapses into the array of the converted values of all its occurrences. The loop
  tests the value stored so far for truthiness, so an occurrence whose converted value
  is the empty string is forgotten when the tag comes again: for
  \<^verbatim>\<open><root><a></a><a>2</a></root>\<close> the result is \<^verbatim>\<open>{a: "2"}\<close>, not \<^verbatim>\<open>{a: ["", "2"]}\<close>.
\<close>

theorem xmlToObject_drops_empty_sibling:
  "xmlToObject (Element ''root'' [] [Element ''a'' [] [], Element ''a'' [] [Text ''2'']])
     = Returns (JObj [(''a'', JStr ''2'')])
   \<and> xmlToObject (Element ''root'' [] [Element ''a'' [] [], Element ''a'' [] [Text ''2'']])
     \<noteq> Returns (JObj [(''a'', JArr [JStr [], JStr ''2''])])"
  by code_simp

section \<open>Parsing CSV: rows of the wrong length\<close>

lemma fillRow_returns: "\<exists>row'. fillRow row pairs = Returns row'"
proof (induction pairs arbitrary: row)
  case Nil
  show ?case by simp
next
  case (Cons p pairs)
  obtain header v where p: "p = (header, v)" by (cases p)
  have "\<exists>row1. assignProp row header (JStr v) = Returns row1"
    by (simp add: assignProp_def)
  then obtain row1 where "assignProp row header (JStr v) = Returns row1" ..
  with Cons.IH [of row1] p show ?case by simp
qed

lemma parseRows_first_mismatch:
  assumes "k < length ls"
    and "length (cleanFields (ls ! k)) \<noteq> length headers"
    and "\<forall>j<k. length (cleanFields (ls ! j)) = length headers"
  shows "parseRows headers i ls result =
    Throws (Error (rowLengthMessage (i + k + 1) (length (cleanFields (ls ! k))) (length headers)))"
  using assms
proof (induction ls arbitrary: k i result)
  case Nil
  then show ?case by simp
next
  case (Cons line rest)
  show ?case
  proof (cases k)
    case 0
    with Cons.prems show ?thesis by (simp add: Let_def)
  next
    case (Suc k')
    from Cons.prems Suc have here: "length (cleanFields line) = length headers"
      by auto
    obtain row where row: "fillRow [] (zip headers (cleanFields line)) = Returns row"
      using fillRow_returns by blast
    have "parseRows headers (i + 1) rest (result @ [JObj row]) =
      Throws (Error (rowLengthMessage (i + 1 + k' + 1) (length (cleanFields (rest ! k')))
        (length headers)))"
    proof (rule Cons.IH)
      show "k' < length rest" using Cons.prems Suc by simp
      show "length (cleanFields (rest ! k')) \<noteq> length headers" using Cons.prems Suc by simp
      show "\<forall>j<k'. length (cleanFields (rest ! j)) = length headers"
        using Cons.prems(3) Suc by auto
    qed
    with here row Suc show ?thesis by (simp add: Let_def)
  qed
qed

text \<open>
  Claim C3. When some data line of a CSV input splits into a number of comma-separated
  fields different from the number of headers, \<^verbatim>\<open>parseCSV\<close> fails, and the message of its
  error names the row, the actual and the expected number of columns. The row is the
  first offending line; it is numbered from 1 among the lines of the trimmed input, the
  header being row 1.
\<close>

theorem parseCSV_row_length_error:
  assumes "\<exists>i. 1 \<le> i \<and> i < length (csvLines csvData) \<and>
      length (split CHR '','' (csvLines csvData ! i)) \<noteq> length (split CHR '','' (csvLines csvData ! 0))"
  shows "\<exists>i. 1 \<le> i \<and> i < length (csvLines csvData) \<and>
      length (split CHR '','' (csvLines csvData ! i)) \<noteq> length (split CHR '','' (csvLines csvData ! 0)) \<and>
      (\<forall>j. 1 \<le> j \<and> j < i \<longrightarrow>
         length (split CHR '','' (csvLines csvData ! j)) = length (split CHR '','' (csvLines csvData ! 0))) \<and>
      parseCSV csvData =
        Throws (Error (rowLengthMessage (i + 1)
          (length (split CHR '','' (csvLines csvData ! i)))
          (length (split CHR '','' (csvLines csvData ! 0)))))"
proof -
  define bad where "bad i \<longleftrightarrow> 1 \<le> i \<and> i < length (csvLines csvData) \<and>
      length (split CHR '','' (csvLines csvData ! i)) \<noteq> length (split CHR '','' (csvLines csvData ! 0))" for i
  from assms have "\<exists>i. bad i" by (simp add: bad_def)
  then obtain i where i: "bad i" and least: "\<forall>j<i. \<not> bad j"
    using exists_least_iff [of bad] by blast
  from i obtain header rest where lines: "csvLines csvData = header # rest"
    by (cases "csvLines csvData") (auto simp: bad_def)
  from i obtain k where k: "i = Suc k" by (cases i) (auto simp: bad_def)
  have "parseRows (cleanFields header) 1 rest [] =
    Throws (Error (rowLengthMessage (1 + k + 1) (length (cleanFields (rest ! k)))
      (length (cleanFields header))))"
  proof (rule parseRows_first_mismatch)
    show "k < length rest" using i k lines by (simp add: bad_def)
    show "length (cleanFields (rest ! k)) \<noteq> length (cleanFields header)"
      using i k lines by (simp add: bad_def length_cleanFields)
    show "\<forall>j<k. length (cleanFields (rest ! j)) = length (cleanFields header)"
    proof (intro allI impI)
      fix j assume "j < k"
      then have "\<not> bad (Suc j)" using least k by simp
      moreover have "Suc j < length (csvLines csvData)" using \<open>j < k\<close> i k by (simp add: bad_def)
      ultimately show "length (cleanFields (rest ! j)) = length (cleanFields header)"
        using lines by (simp add: bad_def length_cleanFields)
    qed
  qed
  then have "parseCSV csvData =
        Throws (Error (rowLengthMessage (i + 1)
          (length (split CHR '','' (csvLines csvData ! i)))
          (length (split CHR '','' (csvLines csvData ! 0)))))"
    using lines k by (simp add: parseCSV_def length_cleanFields)
  moreover have "\<forall>j. 1 \<le> j \<and> j < i \<longrightarrow>
         length (split CHR '','' (csvLines csvData ! j)) = length (split CHR '','' (csvLines csvData ! 0))"
    using least i by (auto simp: bad_def)
  ultimately show ?thesis using i unfolding bad_def by blast
qed

theorem parseCSV_row_length_error_witness:
  "csvLines ''a,b\<newline>1,2\<newline>3'' = [''a,b'', ''1,2'', ''3''] \<and>
   parseCSV ''a,b\<newline>1,2\<newline>3'' = Throws (Error ''Row 3 has 1 columns, expected 2'')"
proof -
  have lines: "csvLines ''a,b\<newline>1,2\<newline>3'' = [''a,b'', ''1,2'', ''3'']"
    by code_simp
  have "\<exists>i. 1 \<le> i \<and> i < length (csvLines ''a,b\<newline>1,2\<newline>3'') \<and>
      length (split CHR '','' (csvLines ''a,b\<newline>1,2\<newline>3'' ! i))
        \<noteq> length (split CHR '','' (csvLines ''a,b\<newline>1,2\<newline>3'' ! 0))"
    unfolding lines by (rule exI [of _ 2]) simp
  from parseCSV_row_length_error [OF this]
  obtain i where "parseCSV ''a,b\<newline>1,2\<newline>3'' =
        Throws (Error (rowLengthMessage (i + 1)
          (length (split CHR '','' (csvLines ''a,b\<newline>1,2\<newline>3'' ! i)))
          (length (split CHR '','' (csvLines ''a,b\<newline>1,2\<newline>3'' ! 0)))))"
    by blast
  moreover have "parseCSV ''a,b\<newline>1,2\<newline>3'' = Throws (Error ''Row 3 has 1 columns, expected 2'')"
    by code_simp
  ultimately show ?thesis using lines by simp
qed

section \<open>Parsing CSV: the rows\<close>

lemma map_of_updateOwn:
  "map_of (updateOwn ps k v) = (if map_of ps k = None then map_of ps else (map_of ps)(k \<mapsto> v))"
  by (induction ps) (auto simp: fun_upd_twist)

lemma map_of_insertIndexKey:
  "map_of ps k = None \<Longrightarrow> map_of (insertIndexKey ps k v) = (map_of ps)(k \<mapsto> v)"
  by (induction ps) (auto simp: fun_upd_twist split: if_splits)

lemma map_of_snoc:
  "m k = None \<Longrightarrow> [k \<mapsto> v] ++ m = m(k \<mapsto> v)"
  by (auto simp: fun_eq_iff map_add_def split: option.splits)

lemma map_of_putOwn: "map_of (putOwn ps k v) = (map_of ps)(k \<mapsto> v)"
proof (cases "map_of ps k = None")
  case True
  then show ?thesis
    by (simp add: putOwn_def map_of_insertIndexKey map_of_snoc)
next
  case False
  then show ?thesis
    by (auto simp: putOwn_def map_of_updateOwn)
qed

lemma keys_updateOwn: "map fst (updateOwn ps k v) = map fst ps"
  by (induction ps) auto


lemma keys_insertIndexKey: "set (map fst (insertIndexKey ps k v)) = insert k (set (map fst ps))"
  by (induction ps k v rule: insertIndexKey.induct) auto


lemma distinct_insertIndexKey:
  "distinct (map fst ps) \<Longrightarrow> k \<notin> set (map fst ps) \<Longrightarrow> distinct (map fst (insertIndexKey ps k v))"
proof (induction ps)
  case Nil
  show ?case by simp
next
  case (Cons p ps)
  obtain k' v' where p: "p = (k', v')" by (cases p)
  from Cons.prems p have "distinct (map fst (insertIndexKey ps k v))"
    by (intro Cons.IH) auto
  moreover have "k' \<notin> set (map fst (insertIndexKey ps k v))"
    using Cons.prems p unfolding keys_insertIndexKey by auto
  ultimately show ?case using Cons.prems p by auto
qed

lemma distinct_putOwn:
  assumes "distinct (map fst ps)"
  shows "distinct (map fst (putOwn ps k v))"
proof (cases "map_of ps k = None")
  case True
  then have "k \<notin> set (map fst ps)" by (simp add: map_of_eq_None_iff)
  with assms show ?thesis
    using True distinct_insertIndexKey [of ps k v] by (simp add: putOwn_def)
next
  case False
  with assms show ?thesis by (simp add: putOwn_def keys_updateOwn)
qed


lemma assignProp_string:
  "assignProp ps k (JStr v) =
     Returns (if map_of ps k = None \<and> k = ''__proto__'' then ps else putOwn ps k (JStr v))"
  by (simp add: assignProp_def)

lemma fillRow_lookup_other:
  "fillRow row pairs = Returns row' \<Longrightarrow> k \<notin> fst ` set pairs \<Longrightarrow> map_of row' k = map_of row k"
proof (induction pairs arbitrary: row)
  case Nil
  then show ?case by simp
next
  case (Cons p pairs)
  obtain h v where p: "p = (h, v)" by (cases p)
  define row1 where "row1 = (if map_of row h = None \<and> h = ''__proto__'' then row else putOwn row h (JStr v))"
  from Cons.prems(1) p have "fillRow row1 pairs = Returns row'"
    by (simp add: assignProp_string row1_def)
  then have "map_of row' k = map_of row1 k"
    using Cons.prems(2) by (intro Cons.IH) auto
  moreover have "map_of row1 k = map_of row k"
    using Cons.prems(2) p by (simp add: row1_def map_of_putOwn)
  ultimately show ?case by simp
qed

lemma fillRow_keys:
  "fillRow row pairs = Returns row' \<Longrightarrow> ''__proto__'' \<notin> fst ` set row \<Longrightarrow>
   fst ` set row' = fst ` set row \<union> (fst ` set pairs - {''__proto__''})"
proof (induction pairs arbitrary: row)
  case Nil
  then show ?case by simp
next
  case (Cons p pairs)
  obtain h v where p: "p = (h, v)" by (cases p)
  define row1 where "row1 = (if map_of row h = None \<and> h = ''__proto__'' then row else putOwn row h (JStr v))"
  from Cons.prems(1) p have run: "fillRow row1 pairs = Returns row'"
    by (simp add: assignProp_string row1_def)
  have none: "map_of row ''__proto__'' = None"
    using Cons.prems(2) by (simp add: map_of_eq_None_iff)
  have "dom (map_of row1) = dom (map_of row) \<union> ({h} - {''__proto__''})"
    using none by (auto simp: row1_def map_of_putOwn)
  then have keys1: "fst ` set row1 = fst ` set row \<union> ({h} - {''__proto__''})"
    by (simp add: dom_map_of_conv_image_fst)
  with Cons.prems(2) have "''__proto__'' \<notin> fst ` set row1" by auto
  with run have "fst ` set row' = fst ` set row1 \<union> (fst ` set pairs - {''__proto__''})"
    by (rule Cons.IH)
  with keys1 p show ?case by auto
qed

lemma fillRow_distinct:
  "fillRow row pairs = Returns row' \<Longrightarrow> distinct (map fst row) \<Longrightarrow> distinct (map fst row')"
proof (induction pairs arbitrary: row)
  case Nil
  then show ?case by simp
next
  case (Cons p pairs)
  obtain h v where p: "p = (h, v)" by (cases p)
  define row1 where "row1 = (if map_of row h = None \<and> h = ''__proto__'' then row else putOwn row h (JStr v))"
  from Cons.prems(1) p have run: "fillRow row1 pairs = Returns row'"
    by (simp add: assignProp_string row1_def)
  have "distinct (map fst row1)"
    using Cons.prems(2) by (simp add: row1_def distinct_putOwn)
  with run show ?case by (rule Cons.IH)
qed


lemma fillRow_lookup_last:
  "fillRow row (zip hs vs) = Returns row' \<Longrightarrow> length hs = length vs \<Longrightarrow> j < length hs \<Longrightarrow>
   hs ! j \<noteq> ''__proto__'' \<Longrightarrow> hs ! j \<notin> set (drop (Suc j) hs) \<Longrightarrow>
   map_of row' (hs ! j) = Some (JStr (vs ! j))"
proof (induction hs arbitrary: vs row j)
  case Nil
  then show ?case by simp
next
  case (Cons h hs)
  from Cons.prems(2) obtain v vs' where vs: "vs = v # vs'" by (cases vs) auto
  define row1 where "row1 = (if map_of row h = None \<and> h = ''__proto__'' then row else putOwn row h (JStr v))"
  from Cons.prems(1) vs have run: "fillRow row1 (zip hs vs') = Returns row'"
    by (simp add: assignProp_string row1_def)
  show ?case
  proof (cases j)
    case 0
    with Cons.prems have h: "h \<noteq> ''__proto__''" "h \<notin> set hs" by auto
    have "fst ` set (zip hs vs') \<subseteq> set hs"
      by (auto dest: set_zip_leftD)
    with h have "h \<notin> fst ` set (zip hs vs')" by auto
    with run have "map_of row' h = map_of row1 h" by (rule fillRow_lookup_other)
    also have "\<dots> = Some (JStr v)" using h by (simp add: row1_def map_of_putOwn)
    finally show ?thesis using 0 vs by simp
  next
    case (Suc j')
    have "map_of row' (hs ! j') = Some (JStr (vs' ! j'))"
      using run Cons.prems vs Suc by (intro Cons.IH) auto
    then show ?thesis using Suc vs by simp
  qed
qed

lemma parseRows_all_match:
  "\<forall>l\<in>set ls. length (cleanFields l) = length hs \<Longrightarrow>
   \<exists>rows. parseRows hs i ls acc = Returns (JArr (acc @ rows)) \<and> length rows = length ls \<and>
     (\<forall>n<length ls. \<exists>row. fillRow [] (zip hs (cleanFields (ls ! n))) = Returns row \<and>
        rows ! n = JObj row)"
proof (induction ls arbitrary: i acc)
  case Nil
  then show ?case by simp
next
  case (Cons line rest)
  obtain row where row: "fillRow [] (zip hs (cleanFields line)) = Returns row"
    using fillRow_returns by blast
  from Cons.prems have "\<forall>l\<in>set rest. length (cleanFields l) = length hs" by simp
  from Cons.IH [OF this, of "i + 1" "acc @ [JObj row]"]
  obtain rows where rows: "parseRows hs (i + 1) rest (acc @ [JObj row]) = Returns (JArr ((acc @ [JObj row]) @ rows))"
      "length rows = length rest"
      "\<forall>n<length rest. \<exists>r. fillRow [] (zip hs (cleanFields (rest ! n))) = Returns r \<and> rows ! n = JObj r"
    by blast
  have "parseRows hs i (line # rest) acc = Returns (JArr (acc @ (JObj row # rows)))"
    using Cons.prems row rows(1) by (simp add: Let_def)
  moreover have "length (JObj row # rows) = length (line # rest)"
    using rows(2) by simp
  moreover have "\<forall>n<length (line # rest). \<exists>r. fillRow [] (zip hs (cleanFields ((line # rest) ! n))) = Returns r \<and>
        (JObj row # rows) ! n = JObj r"
  proof (intro allI impI)
    fix n assume "n < length (line # rest)"
    then show "\<exists>r. fillRow [] (zip hs (cleanFields ((line # rest) ! n))) = Returns r \<and>
        (JObj row # rows) ! n = JObj r"
      using row rows(3) by (cases n) auto
  qed
  ultimately show ?case by blast
qed


lemma csvLines_not_empty: "csvLines csvData \<noteq> []"
  by (simp add: csvLines_def split_not_empty)

lemma parseCSV_rows:
  assumes "\<forall>i. 1 \<le> i \<and> i < length (csvLines csvData) \<longrightarrow>
      length (split CHR '','' (csvLines csvData ! i)) = length (split CHR '','' (csvLines csvData ! 0))"
  shows "\<exists>rows. parseCSV csvData = Returns (JArr rows) \<and>
      length rows = length (csvLines csvData) - 1 \<and>
      (\<forall>i<length rows. \<exists>row.
         fillRow [] (zip (headerNames csvData) (cleanFields (csvLines csvData ! Suc i))) = Returns row \<and>
         length (cleanFields (csvLines csvData ! Suc i)) = length (headerNames csvData) \<and>
         rows ! i = JObj row)"
proof -
  obtain header rest where lines: "csvLines csvData = header # rest"
    using csvLines_not_empty [of csvData] by (cases "csvLines csvData") auto
  have hs: "headerNames csvData = cleanFields header"
    by (simp add: headerNames_def cleanFields_def lines)
  have match: "\<forall>l\<in>set rest. length (cleanFields l) = length (cleanFields header)"
  proof
    fix l assume "l \<in> set rest"
    then obtain n where n: "n < length rest" "rest ! n = l"
      by (auto simp: in_set_conv_nth)
    from n lines have "1 \<le> Suc n \<and> Suc n < length (csvLines csvData)"
      by simp
    with assms have "length (split CHR '','' (csvLines csvData ! Suc n))
        = length (split CHR '','' (csvLines csvData ! 0))"
      by blast
    with n lines show "length (cleanFields l) = length (cleanFields header)"
      by (simp add: length_cleanFields)
  qed
  from parseRows_all_match [OF match, of 1 "[]"]
  obtain rows where rows: "parseRows (cleanFields header) 1 rest [] = Returns (JArr rows)"
      "length rows = length rest"
      "\<forall>n<length rest. \<exists>row. fillRow [] (zip (cleanFields header) (cleanFields (rest ! n))) = Returns row \<and>
          rows ! n = JObj row"
    by auto
  have "parseCSV csvData = Returns (JArr rows)"
    using rows(1) lines by (simp add: parseCSV_def)
  moreover have "length rows = length (csvLines csvData) - 1"
    using rows(2) lines by simp
  moreover have "\<forall>i<length rows. \<exists>row.
         fillRow [] (zip (headerNames csvData) (cleanFields (csvLines csvData ! Suc i))) = Returns row \<and>
         length (cleanFields (csvLines csvData ! Suc i)) = length (headerNames csvData) \<and>
         rows ! i = JObj row"
    using rows(2,3) match lines hs by auto
  ultimately show ?thesis by blast
qed


text \<open>
  Claim C4, amended. Take a CSV text every data line of which has as many comma-separated
  fields as the first line (otherwise \<^verbatim>\<open>parseCSV\<close> fails). \<^verbatim>\<open>parseCSV\<close> treats the first
  line as the header and returns an array with one object for each subsequent line. The
  keys of each object are the header names other than \<^verbatim>\<open>__proto__\<close>, each once. A header
  name other than \<^verbatim>\<open>__proto__\<close> is mapped to the cell, a string, of the last column that
  carries the name: when the headers are distinct, each header is mapped to the cell of
  its own column.
\<close>

theorem parseCSV_maps_headers_to_cells:
  assumes "\<forall>i. 1 \<le> i \<and> i < length (csvLines csvData) \<longrightarrow>
      length (split CHR '','' (csvLines csvData ! i)) = length (split CHR '','' (csvLines csvData ! 0))"
  shows "\<exists>rows. parseCSV csvData = Returns (JArr rows) \<and>
      length rows = length (csvLines csvData) - 1 \<and>
      (\<forall>i<length rows. \<exists>row. rows ! i = JObj row \<and> distinct (map fst row) \<and>
         set (map fst row) = set (headerNames csvData) - {''__proto__''} \<and>
         (\<forall>j<length (headerNames csvData).
            headerNames csvData ! j \<noteq> ''__proto__'' \<and>
            headerNames csvData ! j \<notin> set (drop (Suc j) (headerNames csvData)) \<longrightarrow>
            getProp (rows ! i) (headerNames csvData ! j) = Returns (JStr (cellText csvData (Suc i) j))))"
proof -
  from parseCSV_rows [OF assms]
  obtain rows where rows: "parseCSV csvData = Returns (JArr rows)"
      "length rows = length (csvLines csvData) - 1"
      "\<forall>i<length rows. \<exists>row.
         fillRow [] (zip (headerNames csvData) (cleanFields (csvLines csvData ! Suc i))) = Returns row \<and>
         length (cleanFields (csvLines csvData ! Suc i)) = length (headerNames csvData) \<and>
         rows ! i = JObj row"
    by blast
  have "\<exists>row. rows ! i = JObj row \<and> distinct (map fst row) \<and>
         set (map fst row) = set (headerNames csvData) - {''__proto__''} \<and>
         (\<forall>j<length (headerNames csvData).
            headerNames csvData ! j \<noteq> ''__proto__'' \<and>
            headerNames csvData ! j \<notin> set (drop (Suc j) (headerNames csvData)) \<longrightarrow>
            getProp (rows ! i) (headerNames csvData ! j) = Returns (JStr (cellText csvData (Suc i) j)))"
    if i: "i < length rows" for i
  proof -
    let ?hs = "headerNames csvData"
    let ?vs = "cleanFields (csvLines csvData ! Suc i)"
    from rows(3) i obtain row where row: "fillRow [] (zip ?hs ?vs) = Returns row"
        "length ?vs = length ?hs" "rows ! i = JObj row"
      by blast
    have d: "distinct (map fst row)"
      using row(1) by (rule fillRow_distinct) simp
    have "fst ` set row = fst ` set ([] :: props) \<union> (fst ` set (zip ?hs ?vs) - {''__proto__''})"
      using row(1) by (rule fillRow_keys) simp
    moreover have "fst ` set (zip ?hs ?vs) = set ?hs"
      using row(2) by (metis map_fst_zip set_map)
    ultimately have keys: "set (map fst row) = set ?hs - {''__proto__''}"
      by simp
    have cells: "getProp (rows ! i) (?hs ! j) = Returns (JStr (cellText csvData (Suc i) j))"
      if j: "j < length ?hs" "?hs ! j \<noteq> ''__proto__''" "?hs ! j \<notin> set (drop (Suc j) ?hs)" for j
    proof -
      have "map_of row (?hs ! j) = Some (JStr (?vs ! j))"
        using row(1) row(2) [symmetric] j by (rule fillRow_lookup_last)
      moreover have "?vs ! j = cellText csvData (Suc i) j"
        using j(1) row(2) by (simp add: cellText_def cleanFields_def)
      ultimately show ?thesis using row(3) by simp
    qed
    from d keys cells row(3) show ?thesis by blast
  qed
  with rows(1,2) show ?thesis by blast
qed

theorem parseCSV_maps_headers_to_cells_witness:
  "csvLines ''a,b\<newline>1,2'' = [''a,b'', ''1,2''] \<and>
   parseCSV ''a,b\<newline>1,2'' = Returns (JArr [JObj [(''a'', JStr ''1''), (''b'', JStr ''2'')]])"
proof -
  have lines: "csvLines ''a,b\<newline>1,2'' = [''a,b'', ''1,2'']"
    by code_simp
  have "\<forall>i. 1 \<le> i \<and> i < length (csvLines ''a,b\<newline>1,2'') \<longrightarrow>
      length (split CHR '','' (csvLines ''a,b\<newline>1,2'' ! i))
        = length (split CHR '','' (csvLines ''a,b\<newline>1,2'' ! 0))"
    unfolding lines by (auto simp: less_Suc_eq)
  from parseCSV_maps_headers_to_cells [OF this]
  obtain rows where "parseCSV ''a,b\<newline>1,2'' = Returns (JArr rows)"
    by blast
  moreover have "parseCSV ''a,b\<newline>1,2'' = Returns (JArr [JObj [(''a'', JStr ''1''), (''b'', JStr ''2'')]])"
    by code_simp
  ultimately show ?thesis using lines by simp
qed

text \<open>
  Claim C4 as stated fails when a header name is repeated: for the header \<^verbatim>\<open>a,a\<close> and
  the row \<^verbatim>\<open>1,2\<close>, the first header is \<^verbatim>\<open>a\<close> and its cell is \<^verbatim>\<open>1\<close>, but the object maps
  \<^verbatim>\<open>a\<close> to \<^verbatim>\<open>2\<close>.
\<close>

theorem parseCSV_duplicate_header_counterexample:
  "parseCSV ''a,a\<newline>1,2'' = Returns (JArr [JObj [(''a'', JStr ''2'')]]) \<and>
   headerNames ''a,a\<newline>1,2'' ! 0 = ''a'' \<and>
   cellText ''a,a\<newline>1,2'' 1 0 = ''1'' \<and>
   getProp (JObj [(''a'', JStr ''2'')]) ''a'' = Returns (JStr ''2'')"
  by code_simp



section \<open>Serialising to CSV: the rows\<close>

lemma toStringJS_coercible:
  "coercible v \<Longrightarrow> \<exists>s. toStringJS v = Returns s"
  "allCoercible vs \<Longrightarrow> \<exists>ss. elementStrings vs = Returns ss"
proof (induction v and vs rule: coercible_allCoercible.induct)
  case (1 xs)
  then show ?case by auto
next
  case (9 x xs)
  then obtain s ss where s: "toStringJS x = Returns s" and ss: "elementStrings xs = Returns ss"
    by auto
  then show ?case by (cases x) auto
qed auto

lemma toStringJS_stringOf: "coercible v \<Longrightarrow> toStringJS v = Returns (stringOf v)"
  using toStringJS_coercible(1) [of v] by (auto simp: stringOf_def)

lemma mapOutcome_returns:
  "\<forall>x\<in>set xs. f x = Returns (g x) \<Longrightarrow> mapOutcome f xs = Returns (map g xs)"
  by (induction xs) auto

lemma mapOutcome_map: "mapOutcome f (map h xs) = mapOutcome (\<lambda>x. f (h x)) xs"
  by (induction xs) (simp_all split: outcome.splits)

lemma cell_of_object:
  assumes "header \<in> set objectPrototypeMembers \<longrightarrow> map_of row header \<noteq> None"
    and "\<forall>v. map_of row header = Some v \<and> truthy v \<longrightarrow> coercible v"
  shows "cell (JObj row) header = Returns (quoted (cellString row header))"
proof (cases "map_of row header")
  case None
  with assms(1) show ?thesis
    by (auto simp: cell_def cellString_def quoted_def)
next
  case (Some v)
  show ?thesis
  proof (cases "truthy v")
    case True
    with Some assms(2) have "toStringJS v = Returns (stringOf v)"
      by (simp add: toStringJS_stringOf)
    with Some True show ?thesis
      by (simp add: cell_def cellString_def quoted_def)
  next
    case False
    with Some show ?thesis
      by (simp add: cell_def cellString_def quoted_def)
  qed
qed

text \<open>
  Claim C6, amended. Take a non-empty array of objects such that every header key (a key
  of the first element) that names a member of \<^verbatim>\<open>Object.prototype\<close> is an own property
  of every element, and such that every truthy value found under a header key can be
  converted to a string. Then \<^verbatim>\<open>convertToCSV\<close> returns the header row, the keys of the
  first element joined by commas (keys that only later elements have are ignored),
  followed by one row for each element: the cells for the header keys, each wrapped in
  double quotes and joined by commas, where a missing or falsy cell is the empty text.
\<close>

theorem convertToCSV_rows:
  assumes "rows \<noteq> []"
    and "\<forall>row\<in>set rows. \<forall>header\<in>set (map fst (hd rows)).
           header \<in> set objectPrototypeMembers \<longrightarrow> map_of row header \<noteq> None"
    and "\<forall>row\<in>set rows. \<forall>header\<in>set (map fst (hd rows)).
           \<forall>v. map_of row header = Some v \<and> truthy v \<longrightarrow> coercible v"
  shows "convertToCSV (JArr (map JObj rows)) =
    Returns (join [CHR 0x0A]
      (join '','' (map fst (hd rows)) #
       map (\<lambda>row. join '','' (map (\<lambda>header. quoted (cellString row header)) (map fst (hd rows))))
         rows))"
proof -
  let ?headers = "map fst (hd rows)"
  have keys: "objectKeys (map JObj rows ! 0) = Returns ?headers"
    using assms(1) by (simp add: hd_conv_nth)
  have line: "rowLine ?headers (JObj row) =
      Returns (join '','' (map (\<lambda>header. quoted (cellString row header)) ?headers))"
    if row: "row \<in> set rows" for row
  proof -
    have "\<forall>header\<in>set ?headers. cell (JObj row) header = Returns (quoted (cellString row header))"
    proof
      fix header assume h: "header \<in> set ?headers"
      show "cell (JObj row) header = Returns (quoted (cellString row header))"
        using assms(2,3) row h by (intro cell_of_object) blast+
    qed
    then have "mapOutcome (cell (JObj row)) ?headers =
        Returns (map (\<lambda>header. quoted (cellString row header)) ?headers)"
      by (rule mapOutcome_returns)
    then show ?thesis by (simp add: rowLine_def)
  qed
  have "mapOutcome (rowLine ?headers) (map JObj rows) =
      mapOutcome (\<lambda>row. rowLine ?headers (JObj row)) rows"
    by (rule mapOutcome_map)
  also have "\<dots> =
      Returns (map (\<lambda>row. join '','' (map (\<lambda>header. quoted (cellString row header)) ?headers)) rows)"
    using line by (intro mapOutcome_returns) blast
  finally show ?thesis
    using keys assms(1) by (simp add: convertToCSV_def)
qed

theorem convertToCSV_rows_witness:
  \<open>convertToCSV (JArr [JObj [(''a'', JStr ''1''), (''b'', JStr ''2'')]]) = Returns ''a,b\<newline>"1","2"'' \<and>
   convertToCSV (JArr (map JObj
      [[(''a'', JStr ''1''), (''b'', JStr ''2'')], [(''a'', JNum ''0''), (''c'', JBool True)]])) =
     Returns ''a,b\<newline>"1","2"\<newline>"",""''\<close>
proof -
  let ?rows = "[[(''a'', JStr ''1''), (''b'', JStr ''2'')], [(''a'', JNum ''0''), (''c'', JBool True)]]"
  have first: \<open>convertToCSV (JArr [JObj [(''a'', JStr ''1''), (''b'', JStr ''2'')]]) = Returns ''a,b\<newline>"1","2"''\<close>
    by code_simp
  have "?rows \<noteq> []" by simp
  moreover have "\<forall>row\<in>set ?rows. \<forall>header\<in>set (map fst (hd ?rows)).
           header \<in> set objectPrototypeMembers \<longrightarrow> map_of row header \<noteq> None"
    by (simp add: objectPrototypeMembers_def)
  moreover have "\<forall>row\<in>set ?rows. \<forall>header\<in>set (map fst (hd ?rows)).
           \<forall>v. map_of row header = Some v \<and> truthy v \<longrightarrow> coercible v"
    by simp
  ultimately have "convertToCSV (JArr (map JObj ?rows)) =
    Returns (join [CHR 0x0A]
      (join '','' (map fst (hd ?rows)) #
       map (\<lambda>row. join '','' (map (\<lambda>header. quoted (cellString row header)) (map fst (hd ?rows))))
         ?rows))"
    by (rule convertToCSV_rows)
  then have \<open>convertToCSV (JArr (map JObj ?rows)) = Returns ''a,b\<newline>"1","2"\<newline>"",""''\<close>
    by (simp add: quoted_def cellString_def stringOf_def doubleQuote_def)
  with first show ?thesis by simp
qed

text \<open>
  Claim C6 as stated fails on an array of objects with a cell that cannot be converted to
  a string: for \<^verbatim>\<open>[{a: {toString: "x"}}]\<close> the template literal raises a TypeError and
  nothing is emitted.
\<close>

theorem convertToCSV_uncoercible_cell_counterexample:
  "convertToCSV (JArr [JObj [(''a'', JObj [(''toString'', JStr ''x'')])]]) = Throws TypeError"
  by code_simp

end
